theory Spec2Isabelle
  imports Complex_Main
begin

section \<open>Process control of the QNX remote process monitor\<close>

text \<open>
  A shallow embedding of \<^verbatim>\<open>qnx::utils::ProcessControl\<close> (the second half of
  \<^verbatim>\<open>src/Authenticator.cpp\<close>). The functions talk to the kernel and to the process
  filesystem; both are read from a \<open>host\<close> value, and everything a function does
  besides returning (kernel calls, files opened, directories listed, lines written to
  \<^verbatim>\<open>std::cerr\<close>) is returned next to its result as a list of events, in program order.
\<close>

subsection \<open>The host: build target, kernel and process filesystem\<close>

text \<open>
  \<^verbatim>\<open>pid_t\<close> and signal numbers are \<open>int\<close>: the code compares and prints them and
  never computes with them. The only range check, the one of \<^verbatim>\<open>std::stoi\<close>, is written
  out below. File contents and strings are lists of 8-bit characters.
\<close>

type_synonym pid_t = int

datatype event =
    SignalKill pid_t int  \<comment> \<open>\<^verbatim>\<open>SignalKill(0, pid, 0, signal, 0, 0)\<close> or \<^verbatim>\<open>kill(pid, signal)\<close>\<close>
  | Open string           \<comment> \<open>a \<^verbatim>\<open>std::ifstream\<close> constructed on this path\<close>
  | ListDir string        \<comment> \<open>a \<^verbatim>\<open>directory_iterator\<close> constructed on this path\<close>
  | Cerr string           \<comment> \<open>one line written to \<^verbatim>\<open>std::cerr\<close> (without its \<^verbatim>\<open>std::endl\<close>)\<close>

text \<open>
  One entry of a directory listing. \<open>is_directory\<close> is \<open>Inr b\<close> when
  \<^verbatim>\<open>entry.is_directory()\<close> returns \<open>b\<close> and \<open>Inl msg\<close> when it throws a
  \<^verbatim>\<open>filesystem_error\<close> whose \<^verbatim>\<open>what()\<close> is \<open>msg\<close>.
\<close>

record dir_entry =
  filename :: string
  is_directory :: "string + bool"

text \<open>
  The host. \<open>qnx\<close> says whether \<^verbatim>\<open>__QNXNTO__\<close> is defined in the build. The
  signal numbers, the two record sizes and the two field readers come from system
  headers (\<^verbatim>\<open>signal.h\<close>, \<^verbatim>\<open>sys/procfs.h\<close>) that are not part of the repository, so
  they are parameters: \<open>debug_process_parent bs\<close> is the member \<^verbatim>\<open>parent\<close> of the
  \<^verbatim>\<open>debug_process_t\<close> whose object representation is \<open>bs\<close>, and
  \<open>procfs_status_stksize bs\<close> the member \<^verbatim>\<open>stksize\<close> of such a
  \<^verbatim>\<open>procfs_status\<close>.
  \<open>kill_rc pid sig\<close> is the value the kernel call returns and \<open>kill_errno pid sig\<close>
  the \<^verbatim>\<open>errno\<close> it leaves; \<open>strerror\<close> is the message of
  \<^verbatim>\<open>std::system_category()\<close>. \<open>file_content path\<close> is the content of the file at
  \<open>path\<close>, or \<open>None\<close> when a \<^verbatim>\<open>std::ifstream\<close> on it fails to open;
  \<open>directory path\<close> is the listing a \<^verbatim>\<open>directory_iterator\<close> yields, or \<open>Inl msg\<close>
  when constructing it throws.
\<close>

record host =
  qnx :: bool
  SIGSTOP :: int
  SIGCONT :: int
  SIGTERM :: int
  sizeof_debug_process :: nat
  debug_process_parent :: "string \<Rightarrow> pid_t"
  sizeof_procfs_status :: nat
  procfs_status_stksize :: "string \<Rightarrow> nat"
  kill_rc :: "pid_t \<Rightarrow> int \<Rightarrow> int"
  kill_errno :: "pid_t \<Rightarrow> int \<Rightarrow> nat"
  strerror :: "nat \<Rightarrow> string"
  file_content :: "string \<Rightarrow> string option"
  directory :: "string \<Rightarrow> string + dir_entry list"

text \<open>Modelled from the spec: the declaration of \<^verbatim>\<open>ProcessInfo\<close>, which lives in
  \<^verbatim>\<open>ProcessControl.hpp\<close>, a header that is not among the sources. The spec gives it
  a fraction \<open>cpu_usage\<close> and an unsigned count \<open>memory_usage\<close>, and the code
  initialises it with \<^verbatim>\<open>ProcessInfo info{0.0, 0}\<close>. The code only ever stores the
  literals \<^verbatim>\<open>0.0\<close> and \<^verbatim>\<open>0.5\<close> in \<open>cpu_usage\<close>, both exact in binary
  floating point, so a real number holds them without loss.\<close>

record ProcessInfo =
  cpu_usage :: real
  memory_usage :: nat

subsection \<open>Library functions the code calls\<close>

text \<open>\<^verbatim>\<open>operator<<\<close> of a stream on an \<^verbatim>\<open>int\<close>: decimal, with a minus sign.\<close>

definition digit_char :: "nat \<Rightarrow> char" where
  "digit_char d = ''0123456789'' ! d"

fun show_nat :: "nat \<Rightarrow> string" where
  "show_nat n = (if n < 10 then [digit_char n] else show_nat (n div 10) @ [digit_char (n mod 10)])"

declare show_nat.simps [simp del]

definition show_int :: "int \<Rightarrow> string" where
  "show_int i = (if i < 0 then CHR ''-'' # show_nat (nat (- i)) else show_nat (nat i))"

text \<open>\<^verbatim>\<open>std::isdigit\<close> and \<^verbatim>\<open>std::isspace\<close> in the C locale.\<close>

definition isdigit :: "char \<Rightarrow> bool" where
  "isdigit c = (c \<in> set ''0123456789'')"

definition isspace :: "char \<Rightarrow> bool" where
  "isspace c = (c \<in> set [CHR '' '', CHR 0x09, CHR 0x0A, CHR 0x0B, CHR 0x0C, CHR 0x0D])"

definition digit_value :: "char \<Rightarrow> nat" where
  "digit_value c = of_char c - 48"

definition digits_value :: "string \<Rightarrow> nat" where
  "digits_value ds = foldl (\<lambda>acc c. 10 * acc + digit_value c) 0 ds"

text \<open>
  \<^verbatim>\<open>std::stoi(name)\<close>, base 10: leading white space is skipped, one sign is
  accepted, then the longest run of digits is converted and whatever follows it is
  ignored. It throws \<^verbatim>\<open>std::invalid_argument\<close> when there is no digit and
  \<^verbatim>\<open>std::out_of_range\<close> when the value does not fit a 32-bit \<^verbatim>\<open>int\<close>.
\<close>

datatype stoi_error = invalid_argument | out_of_range

definition stoi :: "string \<Rightarrow> stoi_error + int" where
  "stoi s =
     (let s1 = dropWhile isspace s;
          neg = (s1 \<noteq> [] \<and> hd s1 = CHR ''-'');
          s2 = (if s1 \<noteq> [] \<and> (hd s1 = CHR ''-'' \<or> hd s1 = CHR ''+'') then tl s1 else s1);
          ds = takeWhile isdigit s2;
          v = (if neg then - int (digits_value ds) else int (digits_value ds))
      in if ds = [] then Inl invalid_argument
         else if v < - 2147483648 \<or> 2147483647 < v then Inl out_of_range
         else Inr v)"

text \<open>\<^verbatim>\<open>stream.read(buf, n)\<close> leaves the stream good exactly when \<open>n\<close> bytes were
  there to read; the buffer then holds the first \<open>n\<close> bytes.\<close>

definition read_exact :: "string \<Rightarrow> nat \<Rightarrow> string option" where
  "read_exact content n = (if n \<le> length content then Some (take n content) else None)"

text \<open>\<^verbatim>\<open>std::getline(stream, line)\<close> on a freshly opened stream: \<open>line\<close> receives
  the characters before the first newline (the newline is consumed and not stored). The
  stream is left failed exactly when no character at all could be extracted, that is when
  the file is empty; \<open>line\<close> is empty then.\<close>

definition getline :: "string \<Rightarrow> string" where
  "getline content = takeWhile (\<lambda>c. c \<noteq> CHR 0x0A) content"

definition getline_ok :: "string \<Rightarrow> bool" where
  "getline_ok content = (content \<noteq> [])"

definition proc_path :: "pid_t \<Rightarrow> string \<Rightarrow> string" where
  "proc_path pid leaf = ''/proc/'' @ show_int pid @ ''/'' @ leaf"

subsection \<open>Signal dispatch\<close>

definition sendSignal :: "host \<Rightarrow> pid_t \<Rightarrow> int \<Rightarrow> bool \<times> event list" where
  "sendSignal h pid signal =
     (if kill_rc h pid signal = - 1
      then (False,
            [SignalKill pid signal,
             Cerr (''Failed to send signal '' @ show_int signal @ '' to PID '' @ show_int pid
                   @ '': '' @ strerror h (kill_errno h pid signal))])
      else (True, [SignalKill pid signal]))"

definition suspend :: "host \<Rightarrow> pid_t \<Rightarrow> bool \<times> event list" where
  "suspend h pid =
     (if qnx h then sendSignal h pid (SIGSTOP h)
      else (False, [Cerr ''Process suspension not supported on non-QNX systems'']))"

definition resume :: "host \<Rightarrow> pid_t \<Rightarrow> bool \<times> event list" where
  "resume h pid =
     (if qnx h then sendSignal h pid (SIGCONT h)
      else (False, [Cerr ''Process resumption not supported on non-QNX systems'']))"

definition terminate :: "host \<Rightarrow> pid_t \<Rightarrow> bool \<times> event list" where
  "terminate h pid = sendSignal h pid (SIGTERM h)"

definition exists :: "host \<Rightarrow> pid_t \<Rightarrow> bool \<times> event list" where
  "exists h pid =
     (if qnx h then (kill_rc h pid 0 \<noteq> - 1, [SignalKill pid 0])
      else (kill_rc h pid 0 = 0, [SignalKill pid 0]))"

subsection \<open>Introspection\<close>

text \<open>
  \<^verbatim>\<open>getParentPid\<close>. On a QNX build the \<^verbatim>\<open>info\<close> file is opened and, when it
  holds a whole \<^verbatim>\<open>debug_process_t\<close>, its \<^verbatim>\<open>parent\<close> is returned. Otherwise the
  \<^verbatim>\<open>status\<close> file is opened; the three ways out of that part (not opened, read in
  full, read short) all return \<^verbatim>\<open>std::nullopt\<close>, as in the source.
\<close>

definition getParentPid :: "host \<Rightarrow> pid_t \<Rightarrow> pid_t option \<times> event list" where
  "getParentPid h pid =
     (if qnx h then
        (let info_path = proc_path pid ''info'';
             pinfo = (case file_content h info_path of
                        None \<Rightarrow> None
                      | Some content \<Rightarrow> read_exact content (sizeof_debug_process h))
         in case pinfo of
              Some bs \<Rightarrow> (Some (debug_process_parent h bs), [Open info_path])
            | None \<Rightarrow>
                (let status_path = proc_path pid ''status''
                 in case file_content h status_path of
                      None \<Rightarrow> (None, [Open info_path, Open status_path])
                    | Some content \<Rightarrow>
                        (case read_exact content (sizeof_procfs_status h) of
                           Some pstatus \<Rightarrow> (None, [Open info_path, Open status_path])
                         | None \<Rightarrow> (None, [Open info_path, Open status_path]))))
      else (None, []))"

text \<open>
  The loop of \<^verbatim>\<open>getChildProcesses\<close> over the entries of \<^verbatim>\<open>/proc\<close>. An entry
  whose \<^verbatim>\<open>is_directory()\<close> throws leaves the loop through the outer \<^verbatim>\<open>catch\<close>:
  the children found so far are kept and one line goes to \<^verbatim>\<open>std::cerr\<close>. An
  exception of \<^verbatim>\<open>std::stoi\<close> is caught inside the loop, which goes on. (An error
  while the iterator advances leaves the loop the same way; a listing that ends in an
  entry with \<open>Inl msg\<close> stands for it.)
\<close>

fun scan_entries :: "host \<Rightarrow> pid_t \<Rightarrow> dir_entry list \<Rightarrow> pid_t list \<times> event list" where
  "scan_entries h pid [] = ([], [])"
| "scan_entries h pid (entry # rest) =
     (case is_directory entry of
        Inl what \<Rightarrow> ([], [Cerr (''Error getting child processes: '' @ what)])
      | Inr False \<Rightarrow> scan_entries h pid rest
      | Inr True \<Rightarrow>
          (let name = filename entry
           in if name = [] \<or> \<not> isdigit (hd name) then scan_entries h pid rest
              else (case stoi name of
                      Inl e \<Rightarrow> scan_entries h pid rest
                    | Inr current_pid \<Rightarrow>
                        (let (parent_pid, evs) = getParentPid h current_pid;
                             (children, evs') = scan_entries h pid rest
                         in if parent_pid = Some pid
                            then (current_pid # children, evs @ evs')
                            else (children, evs @ evs')))))"

definition getChildProcesses :: "host \<Rightarrow> pid_t \<Rightarrow> pid_t list \<times> event list" where
  "getChildProcesses h pid =
     (if qnx h then
        (case directory h ''/proc'' of
           Inl what \<Rightarrow>
             ([], [ListDir ''/proc'', Cerr (''Error getting child processes: '' @ what)])
         | Inr entries \<Rightarrow>
             (let (children, evs) = scan_entries h pid entries
              in (children, ListDir ''/proc'' # evs)))
      else ([], []))"

definition nul_to_space :: "char \<Rightarrow> char" where
  "nul_to_space c = (if c = CHR 0x00 then CHR '' '' else c)"

definition getCommandLine :: "host \<Rightarrow> pid_t \<Rightarrow> string \<times> event list" where
  "getCommandLine h pid =
     (let path = proc_path pid ''cmdline''
      in case file_content h path of
           None \<Rightarrow> ('''', [Open path])
         | Some content \<Rightarrow> (map nul_to_space (getline content), [Open path]))"

text \<open>
  \<^verbatim>\<open>getProcessInfo\<close>. Nothing inside the \<^verbatim>\<open>try\<close> block throws (the streams are
  used without exceptions enabled), so on a QNX build the block always returns
  \<open>info\<close>; on any other build it is compiled out and the final
  \<^verbatim>\<open>return std::nullopt\<close> is reached.
\<close>

definition getProcessInfo :: "host \<Rightarrow> pid_t \<Rightarrow> ProcessInfo option \<times> event list" where
  "getProcessInfo h pid =
     (let (alive, evs) = exists h pid
      in if \<not> alive then (None, evs)
         else if qnx h then
           (let info = \<lparr>cpu_usage = 0, memory_usage = 0\<rparr>;
                status_path = proc_path pid ''status'';
                info1 = (case file_content h status_path of
                           None \<Rightarrow> info
                         | Some content \<Rightarrow>
                             (case read_exact content (sizeof_procfs_status h) of
                                Some pstatus \<Rightarrow>
                                  info\<lparr>memory_usage := procfs_status_stksize h pstatus\<rparr>
                              | None \<Rightarrow> info));
                stat_path = proc_path pid ''stat'';
                info2 = (case file_content h stat_path of
                           None \<Rightarrow> info1
                         | Some content \<Rightarrow>
                             if getline_ok content then info1\<lparr>cpu_usage := 1 / 2\<rparr> else info1)
            in (Some info2, evs @ [Open status_path, Open stat_path]))
         else (None, evs))"

subsection \<open>Notions used to state the properties\<close>

text \<open>The parent declared by the \<^verbatim>\<open>debug_process_t\<close> stored in the file at
  \<open>path\<close>, when the file opens and holds a whole record.\<close>

definition record_parent :: "host \<Rightarrow> string \<Rightarrow> pid_t option" where
  "record_parent h path =
     (case file_content h path of
        None \<Rightarrow> None
      | Some content \<Rightarrow>
          if sizeof_debug_process h \<le> length content
          then Some (debug_process_parent h (take (sizeof_debug_process h) content))
          else None)"

text \<open>The process identifier the scan looks up for a directory entry, if it looks one
  up at all: the checks of the loop body up to the call of \<^verbatim>\<open>getParentPid\<close>.\<close>

definition candidate :: "dir_entry \<Rightarrow> pid_t option" where
  "candidate entry =
     (if is_directory entry = Inr True \<and> filename entry \<noteq> [] \<and> isdigit (hd (filename entry))
      then (case stoi (filename entry) of Inl e \<Rightarrow> None | Inr p \<Rightarrow> Some p)
      else None)"

definition proc_dir :: "string \<Rightarrow> dir_entry" where
  "proc_dir name = \<lparr>filename = name, is_directory = Inr True\<rparr>"

subsection \<open>Example hosts\<close>

text \<open>
  A small QNX host with the four processes 100 (parent 1), 101 and 102 (parent 100) and
  103 (parent 101). Its records have a toy layout: a \<^verbatim>\<open>debug_process_t\<close> is eight
  bytes, \<^verbatim>\<open>pid\<close> then \<^verbatim>\<open>parent\<close>, each a little-endian signed 32-bit number, and a
  \<^verbatim>\<open>procfs_status\<close> is eight bytes, \<^verbatim>\<open>pid\<close> then \<^verbatim>\<open>stksize\<close>.
\<close>

definition le_value :: "string \<Rightarrow> nat" where
  "le_value bs = foldr (\<lambda>c v. of_char c + 256 * v) bs 0"

text \<open>A 32-bit pattern read as the signed \<^verbatim>\<open>pid_t\<close> it stands for.\<close>

definition signed32 :: "nat \<Rightarrow> int" where
  "signed32 n = (if n < 2147483648 then int n else int n - 4294967296)"

definition example_files :: "(string \<times> string) list" where
  "example_files =
     [(''/proc/100/info'', [CHR 0x64, CHR 0x00, CHR 0x00, CHR 0x00, CHR 0x01, CHR 0x00, CHR 0x00, CHR 0x00]),
      (''/proc/101/info'', [CHR 0x65, CHR 0x00, CHR 0x00, CHR 0x00, CHR 0x64, CHR 0x00, CHR 0x00, CHR 0x00]),
      (''/proc/102/info'', [CHR 0x66, CHR 0x00, CHR 0x00, CHR 0x00, CHR 0x64, CHR 0x00, CHR 0x00, CHR 0x00]),
      (''/proc/103/info'', [CHR 0x67, CHR 0x00, CHR 0x00, CHR 0x00, CHR 0x65, CHR 0x00, CHR 0x00, CHR 0x00]),
      (''/proc/100/status'', [CHR 0x64, CHR 0x00, CHR 0x00, CHR 0x00, CHR 0x00, CHR 0x10, CHR 0x00, CHR 0x00]),
      (''/proc/100/stat'', ''100 (prog) R''),
      (''/proc/100/cmdline'', ''prog'' @ [CHR 0x00] @ ''--flag'' @ [CHR 0x00] @ ''value''),
      (''/proc/103/cmdline'', ''printf'' @ [CHR 0x00] @ ''a'' @ [CHR 0x0A] @ ''b'' @ [CHR 0x00] @ ''c'')]"

definition example_host :: host where
  "example_host =
     \<lparr>qnx = True, SIGSTOP = 23, SIGCONT = 25, SIGTERM = 15,
      sizeof_debug_process = 8,
      debug_process_parent = (\<lambda>bs. signed32 (le_value (take 4 (drop 4 bs)))),
      sizeof_procfs_status = 8,
      procfs_status_stksize = (\<lambda>bs. le_value (take 4 (drop 4 bs))),
      kill_rc = (\<lambda>pid signal. if pid \<in> {100, 101, 102, 103} then 0 else - 1),
      kill_errno = (\<lambda>pid signal. 3),
      strerror = (\<lambda>e. if e = 3 then ''No such process'' else ''Unknown error''),
      file_content = map_of example_files,
      directory = (\<lambda>path. if path = ''/proc''
                           then Inr [proc_dir ''100'', proc_dir ''101'', proc_dir ''102'', proc_dir ''103'']
                           else Inl ''No such file or directory'')\<rparr>"

text \<open>The same host with the \<^verbatim>\<open>info\<close> record of process 100 cut to three bytes.\<close>

definition short_info_host :: host where
  "short_info_host =
     example_host\<lparr>file_content :=
       (file_content example_host)(''/proc/100/info'' \<mapsto> [CHR 0x64, CHR 0x00, CHR 0x00])\<rparr>"

text \<open>The same processes and files seen by a build without \<^verbatim>\<open>__QNXNTO__\<close>.\<close>

definition other_host :: host where
  "other_host = example_host\<lparr>qnx := False, SIGSTOP := 19, SIGCONT := 18\<rparr>"

text \<open>The QNX host with one more directory in \<^verbatim>\<open>/proc\<close>, named \<^verbatim>\<open>101x\<close>.\<close>

definition stray_entry_host :: host where
  "stray_entry_host =
     example_host\<lparr>directory :=
       (\<lambda>path. if path = ''/proc''
               then Inr [proc_dir ''100'', proc_dir ''101'', proc_dir ''101x'',
                         proc_dir ''102'', proc_dir ''103'']
               else Inl ''No such file or directory'')\<rparr>"

text \<open>The QNX host with the \<^verbatim>\<open>info\<close> record of process 100 overwritten by eight
  bytes \<^verbatim>\<open>0xFF\<close>: a record of the right length that describes no process (its
  \<^verbatim>\<open>pid\<close> and \<^verbatim>\<open>parent\<close> both read -1).\<close>

definition garbage_info_host :: host where
  "garbage_info_host =
     example_host\<lparr>file_content :=
       (file_content example_host)(''/proc/100/info'' \<mapsto>
          [CHR 0xFF, CHR 0xFF, CHR 0xFF, CHR 0xFF, CHR 0xFF, CHR 0xFF, CHR 0xFF, CHR 0xFF])\<rparr>"

text \<open>The QNX host without the \<^verbatim>\<open>info\<close> file of process 100; its \<^verbatim>\<open>status\<close>
  file is there and holds a whole record.\<close>

definition status_only_host :: host where
  "status_only_host =
     example_host\<lparr>file_content := (file_content example_host)(''/proc/100/info'' := None)\<rparr>"

text \<open>
  The QNX host with a kernel that treats the identifier 0 as POSIX \<^verbatim>\<open>kill\<close> and QNX
  \<^verbatim>\<open>SignalKill\<close> do: 0 addresses the process group of the caller, so the probe with
  signal 0 succeeds, although no process has the identifier 0 and \<^verbatim>\<open>/proc\<close> has
  nothing for it.
\<close>

definition group_probe_host :: host where
  "group_probe_host =
     example_host\<lparr>kill_rc :=
       (\<lambda>pid signal. if pid \<in> {0, 100, 101, 102, 103} then 0 else - 1)\<rparr>"

section \<open>Properties\<close>

subsection \<open>Auxiliary facts\<close>

lemma getParentPid_fst:
  "fst (getParentPid h p) = (if qnx h then record_parent h (proc_path p ''info'') else None)"
  by (simp add: getParentPid_def record_parent_def read_exact_def Let_def split: option.splits)

lemma scan_entries_step:
  "is_directory e = Inr b \<Longrightarrow>
   fst (scan_entries h pid (e # es)) =
     (case candidate e of
        None \<Rightarrow> fst (scan_entries h pid es)
      | Some c \<Rightarrow>
          if fst (getParentPid h c) = Some pid
          then c # fst (scan_entries h pid es)
          else fst (scan_entries h pid es))"
  by (cases b) (simp_all add: candidate_def Let_def split: sum.splits prod.splits)

lemma scan_entries_set:
  "\<forall>e \<in> set es. \<exists>b. is_directory e = Inr b \<Longrightarrow>
   set (fst (scan_entries h pid es)) =
     {c. \<exists>e \<in> set es. candidate e = Some c \<and> fst (getParentPid h c) = Some pid}"
proof (induction es)
  case Nil
  show ?case by simp
next
  case (Cons e es)
  then obtain b where b: "is_directory e = Inr b" by auto
  have IH: "set (fst (scan_entries h pid es)) =
     {c. \<exists>e \<in> set es. candidate e = Some c \<and> fst (getParentPid h c) = Some pid}"
    using Cons by simp
  show ?case
  proof (cases "candidate e")
    case None
    then show ?thesis using scan_entries_step [OF b] IH by auto
  next
    case (Some c)
    then show ?thesis using scan_entries_step [OF b] IH by auto
  qed
qed

lemma getChildProcesses_fst:
  "qnx h \<Longrightarrow> directory h ''/proc'' = Inr es \<Longrightarrow>
   fst (getChildProcesses h pid) = fst (scan_entries h pid es)"
  by (simp add: getChildProcesses_def split_beta)

lemma getChildProcesses_set:
  assumes "qnx h" and "directory h ''/proc'' = Inr es"
    and "\<forall>e \<in> set es. \<exists>b. is_directory e = Inr b"
  shows "set (fst (getChildProcesses h pid)) =
     {c. \<exists>e \<in> set es. candidate e = Some c \<and> record_parent h (proc_path c ''info'') = Some pid}"
  using assms(1) scan_entries_set [OF assms(3), of h pid]
  by (simp add: getChildProcesses_fst [OF assms(1,2)] getParentPid_fst)

lemma candidate_numeric:
  "candidate (proc_dir ''100'') = Some 100" "candidate (proc_dir ''101'') = Some 101"
  "candidate (proc_dir ''102'') = Some 102" "candidate (proc_dir ''103'') = Some 103"
  by (simp_all add: candidate_def proc_dir_def isdigit_def stoi_def isspace_def
        digits_value_def digit_value_def)

lemma proc_path_numeric:
  "proc_path 100 leaf = ''/proc/100/'' @ leaf" "proc_path 101 leaf = ''/proc/101/'' @ leaf"
  "proc_path 102 leaf = ''/proc/102/'' @ leaf" "proc_path 103 leaf = ''/proc/103/'' @ leaf"
  by (simp_all add: proc_path_def show_int_def show_nat.simps digit_char_def)

lemma proc_path_7: "proc_path 7 leaf = ''/proc/7/'' @ leaf"
  by (simp add: proc_path_def show_int_def show_nat.simps digit_char_def)

lemma proc_path_0: "proc_path 0 leaf = ''/proc/0/'' @ leaf"
  by (simp add: proc_path_def show_int_def show_nat.simps digit_char_def)

lemma getline_whole: "CHR 0x0A \<notin> set content \<Longrightarrow> getline content = content"
  unfolding getline_def by (induction content) auto

lemma getline_prefix: "CHR 0x0A \<notin> set pre \<Longrightarrow> getline (pre @ CHR 0x0A # post) = pre"
  unfolding getline_def by (induction pre) auto

lemma example_process_info:
  "getProcessInfo example_host 100 =
     (Some \<lparr>cpu_usage = 1 / 2, memory_usage = 4096\<rparr>,
      [SignalKill 100 0, Open ''/proc/100/status'', Open ''/proc/100/stat''])"
  by (simp add: getProcessInfo_def exists_def proc_path_numeric example_host_def
        example_files_def read_exact_def getline_ok_def le_value_def signed32_def)

subsection \<open>Child discovery on the synthetic process table\<close>

text \<open>
  Claim C1 says that for the process table with the records 100 (parent 1), 101 and 102
  (parent 100) and 103 (parent 101), \<^verbatim>\<open>getChildProcesses(100)\<close> returns exactly 101
  and 102 and \<^verbatim>\<open>getChildProcesses(101)\<close> exactly 103. The body of the function is
  compiled only when \<^verbatim>\<open>__QNXNTO__\<close> is defined. On the other build below the table
  is the same (the four directories, the four \<^verbatim>\<open>info\<close> records with these parents)
  and both calls return the empty vector without looking at anything.
\<close>

theorem getChildProcesses_other_build_empty:
  "\<not> qnx other_host \<and>
   directory other_host ''/proc'' =
     Inr [proc_dir ''100'', proc_dir ''101'', proc_dir ''102'', proc_dir ''103''] \<and>
   record_parent other_host ''/proc/100/info'' = Some 1 \<and>
   record_parent other_host ''/proc/101/info'' = Some 100 \<and>
   record_parent other_host ''/proc/102/info'' = Some 100 \<and>
   record_parent other_host ''/proc/103/info'' = Some 101 \<and>
   getChildProcesses other_host 100 = ([], []) \<and>
   getChildProcesses other_host 101 = ([], []) \<and>
   set (fst (getChildProcesses other_host 100)) \<noteq> {101, 102} \<and>
   set (fst (getChildProcesses other_host 101)) \<noteq> {103}"
  by (simp add: getChildProcesses_def record_parent_def other_host_def example_host_def
        example_files_def le_value_def signed32_def)

text \<open>
  Claim C1, with the build it holds on. On a QNX build, when \<^verbatim>\<open>/proc\<close> lists exactly
  the four directories 100, 101, 102 and 103 (in any order) and their \<^verbatim>\<open>info\<close>
  records declare the parents 1, 100, 100 and 101, the children returned for 100 are
  exactly 101 and 102, and the children returned for 101 are exactly 103.
\<close>

theorem getChildProcesses_synthetic_table:
  assumes "qnx h"
    and "directory h ''/proc'' = Inr es"
    and "set es = {proc_dir ''100'', proc_dir ''101'', proc_dir ''102'', proc_dir ''103''}"
    and "record_parent h ''/proc/100/info'' = Some 1"
    and "record_parent h ''/proc/101/info'' = Some 100"
    and "record_parent h ''/proc/102/info'' = Some 100"
    and "record_parent h ''/proc/103/info'' = Some 101"
  shows "set (fst (getChildProcesses h 100)) = {101, 102} \<and>
         set (fst (getChildProcesses h 101)) = {103}"
proof -
  have dirs: "\<forall>e \<in> set es. \<exists>b. is_directory e = Inr b"
    using assms(3) by (auto simp: proc_dir_def)
  have "set (fst (getChildProcesses h 100)) = {101, 102}"
    unfolding getChildProcesses_set [OF assms(1,2) dirs] assms(3)
    using assms(4-7) by (auto simp: candidate_numeric proc_path_numeric)
  moreover have "set (fst (getChildProcesses h 101)) = {103}"
    unfolding getChildProcesses_set [OF assms(1,2) dirs] assms(3)
    using assms(4-7) by (auto simp: candidate_numeric proc_path_numeric)
  ultimately show ?thesis by simp
qed

theorem getChildProcesses_synthetic_table_witness:
  "qnx example_host \<and>
   directory example_host ''/proc'' =
     Inr [proc_dir ''100'', proc_dir ''101'', proc_dir ''102'', proc_dir ''103''] \<and>
   record_parent example_host ''/proc/100/info'' = Some 1 \<and>
   record_parent example_host ''/proc/101/info'' = Some 100 \<and>
   record_parent example_host ''/proc/102/info'' = Some 100 \<and>
   record_parent example_host ''/proc/103/info'' = Some 101 \<and>
   set (fst (getChildProcesses example_host 100)) = {101, 102} \<and>
   set (fst (getChildProcesses example_host 101)) = {103}"
proof -
  have q: "qnx example_host" by (simp add: example_host_def)
  have d: "directory example_host ''/proc'' =
             Inr [proc_dir ''100'', proc_dir ''101'', proc_dir ''102'', proc_dir ''103'']"
    by (simp add: example_host_def)
  have s: "set [proc_dir ''100'', proc_dir ''101'', proc_dir ''102'', proc_dir ''103''] =
             {proc_dir ''100'', proc_dir ''101'', proc_dir ''102'', proc_dir ''103''}"
    by simp
  have r0: "record_parent example_host ''/proc/100/info'' = Some 1"
    by (simp add: record_parent_def example_host_def example_files_def le_value_def signed32_def)
  have r1: "record_parent example_host ''/proc/101/info'' = Some 100"
    by (simp add: record_parent_def example_host_def example_files_def le_value_def signed32_def)
  have r2: "record_parent example_host ''/proc/102/info'' = Some 100"
    by (simp add: record_parent_def example_host_def example_files_def le_value_def signed32_def)
  have r3: "record_parent example_host ''/proc/103/info'' = Some 101"
    by (simp add: record_parent_def example_host_def example_files_def le_value_def signed32_def)
  show ?thesis
    using getChildProcesses_synthetic_table [OF q d s r0 r1 r2 r3] q d r0 r1 r2 r3 by simp
qed

subsection \<open>Which directory entries the scan looks up\<close>

text \<open>
  Claim C2 says that an entry of the process table whose name contains a character that
  is not a digit is never looked up and never contributes to the result. The loop only
  tests the first character of the name, and \<^verbatim>\<open>std::stoi\<close> converts the leading
  digits and ignores the rest. On the host below \<^verbatim>\<open>/proc\<close> holds the directories
  100, 101, 101x, 102 and 103: the entry \<^verbatim>\<open>101x\<close> is looked up as process 101, the
  \<^verbatim>\<open>info\<close> record of 101 is opened a second time, and 101 is returned twice among
  the children of 100.
\<close>

theorem getChildProcesses_stray_entry:
  "filename (proc_dir ''101x'') = ''101x'' \<and> \<not> list_all isdigit ''101x'' \<and>
   candidate (proc_dir ''101x'') = Some 101 \<and>
   getChildProcesses stray_entry_host 100 =
     ([101, 101, 102],
      [ListDir ''/proc'', Open ''/proc/100/info'', Open ''/proc/101/info'',
       Open ''/proc/101/info'', Open ''/proc/102/info'', Open ''/proc/103/info''])"
  by (simp add: getChildProcesses_def getParentPid_def read_exact_def candidate_def proc_dir_def
        isdigit_def stoi_def isspace_def digits_value_def digit_value_def proc_path_numeric
        stray_entry_host_def example_host_def example_files_def le_value_def signed32_def)

text \<open>What the loop does guarantee: an entry that is not a directory, or whose name is
  empty or starts with something else than a digit, is never looked up.\<close>

lemma candidate_needs_leading_digit:
  "is_directory e \<noteq> Inr True \<or> filename e = [] \<or> \<not> isdigit (hd (filename e)) \<Longrightarrow>
   candidate e = None"
  by (auto simp: candidate_def)

subsection \<open>The parent of a process\<close>

text \<open>
  Claim C3 says that \<^verbatim>\<open>getParentPid\<close> returns the parent found in the
  \<^verbatim>\<open>info\<close> record whenever that record is fully readable, takes the parent from
  the \<^verbatim>\<open>status\<close> record when \<^verbatim>\<open>info\<close> is unavailable, and returns absent on
  a malformed or short record. Three hosts show what the code does instead. On the build
  without \<^verbatim>\<open>__QNXNTO__\<close> the \<^verbatim>\<open>info\<close> record of process 100 is whole and
  declares the parent 1, and the result is absent, no file being opened. On the QNX host
  whose \<^verbatim>\<open>info\<close> record of process 100 is eight bytes \<^verbatim>\<open>0xFF\<close>, a record that
  describes no process, the result is the parent -1 and not absent. On the QNX host
  without the \<^verbatim>\<open>info\<close> file of process 100, the \<^verbatim>\<open>status\<close> file is opened,
  it holds a whole record, and the result is absent: nothing is taken from it.
\<close>

theorem getParentPid_claim_fails:
  "\<not> qnx other_host \<and>
   record_parent other_host ''/proc/100/info'' = Some 1 \<and>
   getParentPid other_host 100 = (None, []) \<and>
   qnx garbage_info_host \<and>
   file_content garbage_info_host ''/proc/100/info'' =
     Some [CHR 0xFF, CHR 0xFF, CHR 0xFF, CHR 0xFF, CHR 0xFF, CHR 0xFF, CHR 0xFF, CHR 0xFF] \<and>
   getParentPid garbage_info_host 100 = (Some (- 1), [Open ''/proc/100/info'']) \<and>
   qnx status_only_host \<and>
   file_content status_only_host ''/proc/100/info'' = None \<and>
   file_content status_only_host ''/proc/100/status'' =
     Some [CHR 0x64, CHR 0x00, CHR 0x00, CHR 0x00, CHR 0x00, CHR 0x10, CHR 0x00, CHR 0x00] \<and>
   sizeof_procfs_status status_only_host = 8 \<and>
   getParentPid status_only_host 100 =
     (None, [Open ''/proc/100/info'', Open ''/proc/100/status''])"
  by (simp add: getParentPid_def read_exact_def record_parent_def proc_path_numeric
        other_host_def garbage_info_host_def status_only_host_def example_host_def
        example_files_def le_value_def signed32_def)

text \<open>
  Claim C3, as the code has it. On a QNX build, when the \<^verbatim>\<open>info\<close> file of \<open>p\<close>
  opens and holds at least a whole record, \<^verbatim>\<open>getParentPid\<close> returns the
  \<^verbatim>\<open>parent\<close> member of its first bytes, whatever they are, and opens nothing else.
  When the file does not open or is shorter than a record, the \<^verbatim>\<open>status\<close> file is
  opened next and the result is absent; the content of the \<^verbatim>\<open>status\<close> file never
  changes the result. On any other build the result is absent and no file is opened.
  Every case returns a value; none raises.
\<close>

theorem getParentPid_cases:
  "(qnx h \<and> file_content h (proc_path p ''info'') = Some content \<and>
      sizeof_debug_process h \<le> length content \<longrightarrow>
    getParentPid h p =
      (Some (debug_process_parent h (take (sizeof_debug_process h) content)),
       [Open (proc_path p ''info'')])) \<and>
   (qnx h \<and> (file_content h (proc_path p ''info'') = None \<or>
             file_content h (proc_path p ''info'') = Some content \<and>
             length content < sizeof_debug_process h) \<longrightarrow>
    getParentPid h p = (None, [Open (proc_path p ''info''), Open (proc_path p ''status'')])) \<and>
   (\<not> qnx h \<longrightarrow> getParentPid h p = (None, [])) \<and>
   getParentPid (h\<lparr>file_content := (file_content h)(proc_path p ''status'' := status)\<rparr>) p =
     getParentPid h p"
proof -
  have ne: "proc_path p ''status'' \<noteq> proc_path p ''info''"
    by (simp add: proc_path_def)
  have "getParentPid (h\<lparr>file_content := (file_content h)(proc_path p ''status'' := status)\<rparr>) p =
     getParentPid h p"
    using ne by (cases status) (auto simp: getParentPid_def Let_def split: option.splits)
  then show ?thesis
    by (auto simp: getParentPid_def read_exact_def Let_def split: option.splits)
qed

theorem getParentPid_cases_witness:
  "getParentPid example_host 100 = (Some 1, [Open ''/proc/100/info'']) \<and>
   getParentPid short_info_host 100 = (None, [Open ''/proc/100/info'', Open ''/proc/100/status'']) \<and>
   getParentPid example_host 7 = (None, [Open ''/proc/7/info'', Open ''/proc/7/status'']) \<and>
   getParentPid other_host 100 = (None, []) \<and>
   getParentPid (status_only_host\<lparr>file_content :=
       (file_content status_only_host)(''/proc/100/status'' := None)\<rparr>) 100 =
     getParentPid status_only_host 100"
proof -
  have q: "qnx example_host" "qnx short_info_host" "\<not> qnx other_host"
    by (simp_all add: short_info_host_def other_host_def example_host_def)
  have size: "sizeof_debug_process example_host = 8" "sizeof_debug_process short_info_host = 8"
    by (simp_all add: short_info_host_def example_host_def)
  have whole: "file_content example_host ''/proc/100/info'' =
      Some [CHR 0x64, CHR 0x00, CHR 0x00, CHR 0x00, CHR 0x01, CHR 0x00, CHR 0x00, CHR 0x00]"
    by (simp add: example_host_def example_files_def)
  have parent: "debug_process_parent example_host
      [CHR 0x64, CHR 0x00, CHR 0x00, CHR 0x00, CHR 0x01, CHR 0x00, CHR 0x00, CHR 0x00] = 1"
    by (simp add: example_host_def le_value_def signed32_def)
  have short: "file_content short_info_host ''/proc/100/info'' = Some [CHR 0x64, CHR 0x00, CHR 0x00]"
    by (simp add: short_info_host_def)
  have missing: "file_content example_host ''/proc/7/info'' = None"
    by (simp add: example_host_def example_files_def)
  have "getParentPid example_host 100 = (Some 1, [Open ''/proc/100/info''])"
    using getParentPid_cases [of example_host 100
            "[CHR 0x64, CHR 0x00, CHR 0x00, CHR 0x00, CHR 0x01, CHR 0x00, CHR 0x00, CHR 0x00]"]
    by (simp add: q size whole parent proc_path_numeric)
  moreover have "getParentPid short_info_host 100 =
      (None, [Open ''/proc/100/info'', Open ''/proc/100/status''])"
    using getParentPid_cases [of short_info_host 100 "[CHR 0x64, CHR 0x00, CHR 0x00]"]
    by (simp add: q size short proc_path_numeric)
  moreover have "getParentPid example_host 7 =
      (None, [Open ''/proc/7/info'', Open ''/proc/7/status''])"
    using getParentPid_cases [of example_host 7 "[]"]
    by (simp add: q missing proc_path_7)
  moreover have "getParentPid other_host 100 = (None, [])"
    using getParentPid_cases [of other_host 100 "[]"] by (simp add: q)
  moreover have "getParentPid (status_only_host\<lparr>file_content :=
       (file_content status_only_host)(''/proc/100/status'' := None)\<rparr>) 100 =
     getParentPid status_only_host 100"
    using getParentPid_cases [of status_only_host 100 "[]" None]
    by (simp add: proc_path_numeric)
  ultimately show ?thesis by simp
qed

subsection \<open>Process information\<close>

text \<open>
  Claim C4. When the existence probe of \<open>p\<close> is negative, \<^verbatim>\<open>getProcessInfo\<close>
  returns absent and the probe is the only thing it did: no file is opened, neither the
  \<^verbatim>\<open>status\<close> record nor the \<^verbatim>\<open>stat\<close> record.
\<close>

theorem getProcessInfo_short_circuit:
  assumes "\<not> fst (exists h p)"
  shows "getProcessInfo h p = (None, [SignalKill p 0]) \<and>
         (\<forall>path. Open path \<notin> set (snd (getProcessInfo h p)))"
  using assms by (simp add: getProcessInfo_def exists_def split: if_splits)

theorem getProcessInfo_short_circuit_witness:
  "\<not> fst (exists example_host 7) \<and> getProcessInfo example_host 7 = (None, [SignalKill 7 0])"
proof -
  have e: "\<not> fst (exists example_host 7)"
    by (simp add: exists_def example_host_def)
  show ?thesis using getProcessInfo_short_circuit [OF e] e by simp
qed

text \<open>
  Claim C5 says that for every identifier that names no live process \<^verbatim>\<open>exists\<close>
  returns false and \<^verbatim>\<open>getParentPid\<close> and \<^verbatim>\<open>getProcessInfo\<close> return absent.
  \<^verbatim>\<open>exists\<close> hands the identifier to the kernel unchecked, and for the identifier 0
  the kernel probes the caller's process group: on the host below no process has the
  identifier 0 (\<^verbatim>\<open>/proc\<close> lists 100 to 103 and holds no file for 0), yet
  \<^verbatim>\<open>exists(0)\<close> is true and \<^verbatim>\<open>getProcessInfo(0)\<close> opens the two missing files
  and returns a \<^verbatim>\<open>ProcessInfo\<close> of zeros. \<^verbatim>\<open>getParentPid(0)\<close> is absent.
\<close>

theorem probe_accepts_pid_zero:
  "qnx group_probe_host \<and>
   directory group_probe_host ''/proc'' =
     Inr [proc_dir ''100'', proc_dir ''101'', proc_dir ''102'', proc_dir ''103''] \<and>
   file_content group_probe_host ''/proc/0/info'' = None \<and>
   file_content group_probe_host ''/proc/0/status'' = None \<and>
   file_content group_probe_host ''/proc/0/stat'' = None \<and>
   exists group_probe_host 0 = (True, [SignalKill 0 0]) \<and>
   getProcessInfo group_probe_host 0 =
     (Some \<lparr>cpu_usage = 0, memory_usage = 0\<rparr>,
      [SignalKill 0 0, Open ''/proc/0/status'', Open ''/proc/0/stat'']) \<and>
   getParentPid group_probe_host 0 = (None, [Open ''/proc/0/info'', Open ''/proc/0/status''])"
  by (simp add: exists_def getProcessInfo_def getParentPid_def proc_path_0
        group_probe_host_def example_host_def example_files_def)

text \<open>
  For an identifier whose probe the kernel rejects with -1, as it does for a positive
  identifier that names no process, and that has no \<^verbatim>\<open>info\<close> file, the three
  functions do report absence.
\<close>

lemma dead_pid_absent:
  assumes "kill_rc h p 0 = - 1"
    and "file_content h (proc_path p ''info'') = None"
  shows "\<not> fst (exists h p) \<and> fst (getParentPid h p) = None \<and> fst (getProcessInfo h p) = None"
  using assms by (simp add: exists_def getParentPid_fst record_parent_def getProcessInfo_def)

lemma dead_pid_absent_example:
  "kill_rc example_host 7 0 = - 1 \<and>
   file_content example_host (proc_path 7 ''info'') = None \<and>
   \<not> fst (exists example_host 7) \<and> fst (getParentPid example_host 7) = None \<and>
   fst (getProcessInfo example_host 7) = None"
proof -
  have k: "kill_rc example_host 7 0 = - 1" by (simp add: example_host_def)
  have f: "file_content example_host (proc_path 7 ''info'') = None"
    by (simp add: proc_path_7 example_host_def example_files_def)
  show ?thesis using dead_pid_absent [OF k f] k f by simp
qed

subsection \<open>The command line\<close>

text \<open>
  Claim C6 says that the record made of \<^verbatim>\<open>prog\<close>, \<^verbatim>\<open>--flag\<close> and
  \<^verbatim>\<open>value\<close> with a null byte between them is returned as
  \<^verbatim>\<open>prog --flag value\<close>, and that in general every null byte separating two
  arguments becomes one space. The first part holds (process 100 of the example host).
  The second does not: the code reads one line only. Process 103 of the example host was
  started with the three arguments \<^verbatim>\<open>printf\<close>, an \<^verbatim>\<open>a\<close> and a \<^verbatim>\<open>b\<close> with
  a newline between them, and \<^verbatim>\<open>c\<close>; for its record the code returns
  \<^verbatim>\<open>printf a\<close>, and the separator before \<^verbatim>\<open>c\<close> is lost with everything
  after the newline.
\<close>

theorem getCommandLine_later_separators_lost:
  "fst (getCommandLine example_host 100) = ''prog --flag value'' \<and>
   file_content example_host ''/proc/103/cmdline'' =
     Some (''printf'' @ [CHR 0x00] @ ''a'' @ [CHR 0x0A] @ ''b'' @ [CHR 0x00] @ ''c'') \<and>
   fst (getCommandLine example_host 103) = ''printf a'' \<and>
   fst (getCommandLine example_host 103) \<noteq>
     map nul_to_space (''printf'' @ [CHR 0x00] @ ''a'' @ [CHR 0x0A] @ ''b'' @ [CHR 0x00] @ ''c'')"
  by (simp add: getCommandLine_def getline_def nul_to_space_def proc_path_numeric
        example_host_def example_files_def)

text \<open>The example of the claim holds on every host and for every process.\<close>

lemma getCommandLine_spec_example:
  "file_content h (proc_path pid ''cmdline'') =
     Some (''prog'' @ [CHR 0x00] @ ''--flag'' @ [CHR 0x00] @ ''value'') \<Longrightarrow>
   fst (getCommandLine h pid) = ''prog --flag value''"
  by (simp add: getCommandLine_def getline_def nul_to_space_def)

subsection \<open>Suspend and resume without kernel support\<close>

text \<open>
  Claim C7 says that on a platform without the stop and continue signals \<^verbatim>\<open>suspend\<close>
  and \<^verbatim>\<open>resume\<close> return a failure that is distinct, one that tells the missing
  capability from other failures. The functions return a \<^verbatim>\<open>bool\<close>, and what they
  return on such a build is the \<open>False\<close> that a failed delivery returns too: on the
  build below, suspending or resuming the live process 100 and terminating the missing
  process 7 give the caller the same value.
\<close>

theorem suspend_failure_not_distinct:
  "\<not> qnx other_host \<and> fst (exists other_host 100) \<and>
   fst (terminate other_host 7) = False \<and>
   fst (suspend other_host 100) = fst (terminate other_host 7) \<and>
   fst (resume other_host 100) = fst (terminate other_host 7)"
  by (simp add: suspend_def resume_def terminate_def sendSignal_def exists_def
        other_host_def example_host_def)

text \<open>
  Claim C7, as far as it holds. On a build that is not for QNX, \<^verbatim>\<open>suspend\<close> and
  \<^verbatim>\<open>resume\<close> fail for every process identifier: each returns false and writes one
  line saying that the operation is not supported. Neither makes a kernel call, so no
  signal (a terminate signal in particular) is delivered, and the line written is one
  that no delivery of a signal, failed or not, ever writes.
\<close>

theorem suspend_resume_unsupported:
  assumes "\<not> qnx h"
  shows "suspend h pid = (False, [Cerr ''Process suspension not supported on non-QNX systems'']) \<and>
         resume h pid = (False, [Cerr ''Process resumption not supported on non-QNX systems'']) \<and>
         (\<forall>p s. SignalKill p s \<notin> set (snd (suspend h pid)) \<and>
                SignalKill p s \<notin> set (snd (resume h pid))) \<and>
         (\<forall>h' p s. set (snd (suspend h pid)) \<inter> set (snd (sendSignal h' p s)) = {} \<and>
                   set (snd (resume h pid)) \<inter> set (snd (sendSignal h' p s)) = {})"
  using assms by (simp add: suspend_def resume_def sendSignal_def)

theorem suspend_resume_unsupported_witness:
  "\<not> qnx other_host \<and>
   suspend other_host 100 = (False, [Cerr ''Process suspension not supported on non-QNX systems'']) \<and>
   resume other_host 100 = (False, [Cerr ''Process resumption not supported on non-QNX systems'']) \<and>
   fst (exists other_host 100)"
proof -
  have n: "\<not> qnx other_host" by (simp add: other_host_def)
  have e: "fst (exists other_host 100)"
    by (simp add: exists_def other_host_def example_host_def)
  show ?thesis using suspend_resume_unsupported [OF n, of 100] n e by simp
qed

subsection \<open>The placeholder for CPU usage\<close>

text \<open>
  Claim C8. Whenever \<^verbatim>\<open>getProcessInfo\<close> returns a value, its \<open>cpu_usage\<close> is
  between 0 and 1; it is one of the two constants 0 and 1/2.
\<close>

theorem getProcessInfo_cpu_usage_range:
  assumes "fst (getProcessInfo h pid) = Some info"
  shows "0 \<le> cpu_usage info \<and> cpu_usage info \<le> 1 \<and> (cpu_usage info = 0 \<or> cpu_usage info = 1 / 2)"
  using assms
  by (auto simp: getProcessInfo_def exists_def Let_def split: if_splits option.splits)

theorem getProcessInfo_cpu_usage_range_witness:
  "fst (getProcessInfo example_host 100) = Some \<lparr>cpu_usage = 1 / 2, memory_usage = 4096\<rparr> \<and>
   (0::real) \<le> 1 / 2 \<and> (1 / 2 :: real) \<le> 1"
proof -
  have r: "fst (getProcessInfo example_host 100) = Some \<lparr>cpu_usage = 1 / 2, memory_usage = 4096\<rparr>"
    by (simp add: example_process_info)
  show ?thesis using getProcessInfo_cpu_usage_range [OF r] r by simp
qed

subsection \<open>Process information on another build\<close>

text \<open>
  Claim C9. On a build that is not for QNX, \<^verbatim>\<open>getProcessInfo\<close> returns absent for
  every process identifier, live or not, after the existence probe and nothing else; the
  outcome for a live process is the one for a process that does not exist.
\<close>

theorem getProcessInfo_non_qnx:
  assumes "\<not> qnx h"
  shows "getProcessInfo h pid = (None, [SignalKill pid 0])"
  using assms by (simp add: getProcessInfo_def exists_def)

theorem getProcessInfo_non_qnx_witness:
  "\<not> qnx other_host \<and> fst (exists other_host 100) \<and> \<not> fst (exists other_host 7) \<and>
   fst (getProcessInfo other_host 100) = None \<and>
   fst (getProcessInfo other_host 100) = fst (getProcessInfo other_host 7)"
proof -
  have n: "\<not> qnx other_host" by (simp add: other_host_def)
  have e: "fst (exists other_host 100)" "\<not> fst (exists other_host 7)"
    by (simp_all add: exists_def other_host_def example_host_def)
  show ?thesis
    using getProcessInfo_non_qnx [OF n, of 100] getProcessInfo_non_qnx [OF n, of 7] n e by simp
qed

subsection \<open>Only the first line of the command line\<close>

text \<open>
  Claim C10. When the \<^verbatim>\<open>cmdline\<close> record opens, \<^verbatim>\<open>getCommandLine\<close> returns
  the bytes before the first newline of the record, with each null byte among them
  replaced by a space: for a record \<open>pre @ newline # post\<close> with no newline in
  \<open>pre\<close> nothing of the newline and of \<open>post\<close> is returned, and a record without a
  newline is returned whole.
\<close>

theorem getCommandLine_first_line:
  assumes "file_content h (proc_path pid ''cmdline'') = Some content"
  shows "fst (getCommandLine h pid) = map nul_to_space (takeWhile (\<lambda>c. c \<noteq> CHR 0x0A) content) \<and>
         (\<forall>pre post. content = pre @ CHR 0x0A # post \<and> CHR 0x0A \<notin> set pre \<longrightarrow>
            fst (getCommandLine h pid) = map nul_to_space pre) \<and>
         (CHR 0x0A \<notin> set content \<longrightarrow> fst (getCommandLine h pid) = map nul_to_space content)"
proof -
  have r: "fst (getCommandLine h pid) = map nul_to_space (getline content)"
    using assms by (simp add: getCommandLine_def)
  show ?thesis
    unfolding r by (auto simp: getline_whole getline_prefix) (simp add: getline_def)
qed

theorem getCommandLine_first_line_witness:
  "file_content example_host (proc_path 103 ''cmdline'') =
     Some ((''printf'' @ [CHR 0x00] @ ''a'') @ CHR 0x0A # (''b'' @ [CHR 0x00] @ ''c'')) \<and>
   CHR 0x0A \<notin> set (''printf'' @ [CHR 0x00] @ ''a'') \<and>
   fst (getCommandLine example_host 103) = ''printf a''"
proof -
  have f: "file_content example_host (proc_path 103 ''cmdline'') =
     Some ((''printf'' @ [CHR 0x00] @ ''a'') @ CHR 0x0A # (''b'' @ [CHR 0x00] @ ''c''))"
    by (simp add: proc_path_numeric example_host_def example_files_def)
  have n: "CHR 0x0A \<notin> set (''printf'' @ [CHR 0x00] @ ''a'')" by simp
  have m: "map nul_to_space (''printf'' @ [CHR 0x00] @ ''a'') = ''printf a''"
    by (simp add: nul_to_space_def)
  have "fst (getCommandLine example_host 103) = map nul_to_space (''printf'' @ [CHR 0x00] @ ''a'')"
    using getCommandLine_first_line [OF f] n by blast
  then show ?thesis using f n m by simp
qed

end
